theory Spec2Isabelle
  imports Complex_Main "HOL-Library.DAList"
begin

section \<open>Values, failures and the Python and numpy primitives used by finance.py\<close>

text \<open>
  Every exception the functions of \<^verbatim>\<open>finance.py\<close> can raise is a value: a call returns
  \<open>Inl e\<close> when the Python raises \<open>e\<close> and \<open>Inr v\<close> when it returns \<open>v\<close>.
\<close>

datatype error = ValueError | IndexError | ZeroDivisionError | TypeError | KeyError

text \<open>
  A numpy float is an exact real or one of the three non-finite values. Rounding and the
  sign of a zero are not represented: \<open>Fin 0\<close> stands for both zeros, and a nonzero
  number divided by zero is the infinity with the sign of the numerator. numpy raises
  nothing on a float division by zero (it warns and returns \<open>inf\<close> or \<open>nan\<close>).
\<close>

datatype npfloat = Fin real | PInf | NInf | NaN

definition inf_of_sign :: "real \<Rightarrow> npfloat" where
  "inf_of_sign s = (if 0 < s then PInf else if s < 0 then NInf else NaN)"

fun np_neg :: "npfloat \<Rightarrow> npfloat" where
  "np_neg (Fin a) = Fin (- a)"
| "np_neg PInf = NInf"
| "np_neg NInf = PInf"
| "np_neg NaN = NaN"

fun np_add :: "npfloat \<Rightarrow> npfloat \<Rightarrow> npfloat" where
  "np_add (Fin a) (Fin b) = Fin (a + b)"
| "np_add NaN y = NaN"
| "np_add x NaN = NaN"
| "np_add PInf NInf = NaN"
| "np_add NInf PInf = NaN"
| "np_add PInf y = PInf"
| "np_add x PInf = PInf"
| "np_add NInf y = NInf"
| "np_add x NInf = NInf"

definition np_sub :: "npfloat \<Rightarrow> npfloat \<Rightarrow> npfloat" where
  "np_sub x y = np_add x (np_neg y)"

fun np_mul :: "npfloat \<Rightarrow> npfloat \<Rightarrow> npfloat" where
  "np_mul (Fin a) (Fin b) = Fin (a * b)"
| "np_mul NaN y = NaN"
| "np_mul x NaN = NaN"
| "np_mul PInf (Fin b) = inf_of_sign b"
| "np_mul NInf (Fin b) = inf_of_sign (- b)"
| "np_mul (Fin a) PInf = inf_of_sign a"
| "np_mul (Fin a) NInf = inf_of_sign (- a)"
| "np_mul PInf PInf = PInf"
| "np_mul PInf NInf = NInf"
| "np_mul NInf PInf = NInf"
| "np_mul NInf NInf = PInf"

fun np_div :: "npfloat \<Rightarrow> npfloat \<Rightarrow> npfloat" where
  "np_div (Fin a) (Fin b) = (if b = 0 then inf_of_sign a else Fin (a / b))"
| "np_div NaN y = NaN"
| "np_div x NaN = NaN"
| "np_div (Fin a) PInf = Fin 0"
| "np_div (Fin a) NInf = Fin 0"
| "np_div PInf (Fin b) = (if b < 0 then NInf else PInf)"
| "np_div NInf (Fin b) = (if b < 0 then PInf else NInf)"
| "np_div PInf PInf = NaN"
| "np_div PInf NInf = NaN"
| "np_div NInf PInf = NaN"
| "np_div NInf NInf = NaN"

text \<open>Python indexing \<open>xs[i]\<close>: a negative index counts from the end, out of range raises.\<close>

definition py_index :: "'a list \<Rightarrow> int \<Rightarrow> error + 'a" where
  "py_index xs i =
     (if 0 \<le> i \<and> i < int (length xs) then Inr (xs ! nat i)
      else if i < 0 \<and> - int (length xs) \<le> i then Inr (xs ! nat (int (length xs) + i))
      else Inl IndexError)"

text \<open>The number of leading positions selected by the slice \<open>[:k]\<close> of a sequence of length \<open>n\<close>.\<close>

definition slice_stop :: "nat \<Rightarrow> int \<Rightarrow> nat" where
  "slice_stop n k = (if 0 \<le> k then min n (nat k) else n - nat (- k))"

definition py_slice_to :: "'a list \<Rightarrow> int \<Rightarrow> 'a list" where
  "py_slice_to xs k = take (slice_stop (length xs) k) xs"

text \<open>The numpy assignment \<open>a[:k] = v\<close> of a scalar to a leading slice.\<close>

definition np_fill_to :: "'a list \<Rightarrow> int \<Rightarrow> 'a \<Rightarrow> 'a list" where
  "np_fill_to xs k v =
     replicate (slice_stop (length xs) k) v @ drop (slice_stop (length xs) k) xs"

text \<open>\<open>np.ones(n)\<close> and \<open>np.linspace(a, b, n)\<close>: a negative size is a ValueError.\<close>

definition np_ones :: "int \<Rightarrow> error + real list" where
  "np_ones n = (if n < 0 then Inl ValueError else Inr (replicate (nat n) 1))"

definition np_linspace :: "real \<Rightarrow> real \<Rightarrow> int \<Rightarrow> error + real list" where
  "np_linspace a b n =
     (if n < 0 then Inl ValueError
      else if n = 1 then Inr [a]
      else Inr (map (\<lambda>i. a + real i * ((b - a) / real (nat n - 1))) [0..<nat n]))"

text \<open>
  \<open>np.convolve(a, v, mode='full')\<close>: entry \<open>n\<close> is the sum of \<open>a[m] * v[n - m]\<close> over the
  positions where both exist; an empty argument is a ValueError.
\<close>

definition conv_at :: "real list \<Rightarrow> real list \<Rightarrow> nat \<Rightarrow> real" where
  "conv_at a v n =
     (\<Sum>m\<leftarrow>[0..<length a]. if m \<le> n \<and> n - m < length v then a ! m * v ! (n - m) else 0)"

definition np_convolve :: "real list \<Rightarrow> real list \<Rightarrow> error + real list" where
  "np_convolve a v =
     (if a = [] \<or> v = [] then Inl ValueError
      else Inr (map (conv_at a v) [0..<length a + length v - 1]))"

section \<open>moving_average\<close>

text \<open>
  \<^verbatim>\<open>
  def moving_average(data, periods, type='simple'):
      data = np.asarray(data)
      if type == 'simple':
          weights = np.ones(periods)
      else:
          weights = np.exp(np.linspace(-1., 0., periods))
      weights /= weights.sum()
      mavg = np.convolve(data, weights, mode='full')[:len(data)]
      mavg[:periods] = mavg[periods]
      return mavg
  \<close>
  The weights are positive, so \<open>weights.sum()\<close> is zero only for an empty kernel, where
  the division touches no entry.
\<close>

definition ma_weights :: "int \<Rightarrow> string \<Rightarrow> error + real list" where
  "ma_weights periods type =
     (if type = ''simple'' then np_ones periods
      else case np_linspace (- 1) 0 periods of
             Inl e \<Rightarrow> Inl e
           | Inr xs \<Rightarrow> Inr (map exp xs))"

definition normalise :: "real list \<Rightarrow> real list" where
  "normalise weights = map (\<lambda>w. w / sum_list weights) weights"

definition moving_average :: "real list \<Rightarrow> int \<Rightarrow> string \<Rightarrow> error + real list" where
  "moving_average data periods type =
     (case ma_weights periods type of
        Inl e \<Rightarrow> Inl e
      | Inr weights \<Rightarrow>
          (case np_convolve data (normalise weights) of
             Inl e \<Rightarrow> Inl e
           | Inr full \<Rightarrow>
               (let mavg = take (length data) full in
                case py_index mavg periods of
                  Inl e \<Rightarrow> Inl e
                | Inr v \<Rightarrow> Inr (np_fill_to mavg periods v))))"

section \<open>moving_average_convergence\<close>

text \<open>
  \<^verbatim>\<open>
  def moving_average_convergence(data, nslow=26, nfast=12):
      emaslow = moving_average(data, nslow, type='exponential')
      emafast = moving_average(data, nfast, type='exponential')
      return emaslow, emafast, emafast - emaslow
  \<close>
\<close>

definition moving_average_convergence ::
  "real list \<Rightarrow> int \<Rightarrow> int \<Rightarrow> error + (real list \<times> real list \<times> real list)" where
  "moving_average_convergence data nslow nfast =
     (case moving_average data nslow ''exponential'' of
        Inl e \<Rightarrow> Inl e
      | Inr emaslow \<Rightarrow>
          (case moving_average data nfast ''exponential'' of
             Inl e \<Rightarrow> Inl e
           | Inr emafast \<Rightarrow>
               Inr (emaslow, emafast, map2 (\<lambda>f s. f - s) emafast emaslow)))"

section \<open>relative_strength\<close>

text \<open>
  \<^verbatim>\<open>
  def relative_strength(prices, periods=14):
      deltas = np.diff(prices)
      seed = deltas[:periods + 1]
      up = seed[seed >= 0].sum() / periods
      down = -seed[seed < 0].sum() / periods
      ratio = up / down
      rsi = np.zeros_like(prices)
      rsi[:periods] = 100. - 100. / (1. + ratio)

      for i in range(periods, len(prices)):
          delta = deltas[i - 1]  # Cause the diff is 1 shorter
          if delta > 0:
              upval = delta
              downval = 0.
          else:
              upval = 0.
              downval = -delta
          up = (up * (periods - 1) + upval) / periods
          down = (down * (periods - 1) + downval) / periods
          ratio = up / down
          rsi[i] = 100. - 100. / (1. + ratio)
      return rsi
  \<close>
  The prices are finite floats (reals); \<open>up\<close>, \<open>down\<close> and the entries of \<open>rsi\<close> are
  numpy floats, since the divisions may leave the finite range.
\<close>

definition np_diff :: "real list \<Rightarrow> real list" where
  "np_diff xs = map2 (\<lambda>b a. b - a) (tl xs) xs"

definition seed_up :: "real list \<Rightarrow> int \<Rightarrow> npfloat" where
  "seed_up deltas periods =
     np_div (Fin (sum_list (filter (\<lambda>d. 0 \<le> d) (py_slice_to deltas (periods + 1)))))
            (Fin (real_of_int periods))"

definition seed_down :: "real list \<Rightarrow> int \<Rightarrow> npfloat" where
  "seed_down deltas periods =
     np_div (np_neg (Fin (sum_list (filter (\<lambda>d. d < 0) (py_slice_to deltas (periods + 1))))))
            (Fin (real_of_int periods))"

definition rsi_value :: "npfloat \<Rightarrow> npfloat \<Rightarrow> npfloat" where
  "rsi_value up down = np_sub (Fin 100) (np_div (Fin 100) (np_add (Fin 1) (np_div up down)))"

definition smooth :: "npfloat \<Rightarrow> int \<Rightarrow> real \<Rightarrow> npfloat" where
  "smooth avg periods val =
     np_div (np_add (np_mul avg (Fin (real_of_int (periods - 1)))) (Fin val))
            (Fin (real_of_int periods))"

text \<open>The assignment \<open>xs[i] = v\<close>, with Python's index rule.\<close>

definition py_set :: "'a list \<Rightarrow> int \<Rightarrow> 'a \<Rightarrow> error + 'a list" where
  "py_set xs i v =
     (if 0 \<le> i \<and> i < int (length xs) then Inr (xs[nat i := v])
      else if i < 0 \<and> - int (length xs) \<le> i then Inr (xs[nat (int (length xs) + i) := v])
      else Inl IndexError)"

text \<open>The body of the \<open>for\<close> loop, run over the indices of \<open>range(periods, len(prices))\<close>.\<close>

fun rsi_loop ::
  "real list \<Rightarrow> int \<Rightarrow> int list \<Rightarrow> npfloat \<Rightarrow> npfloat \<Rightarrow> npfloat list \<Rightarrow> error + npfloat list" where
  "rsi_loop deltas periods [] up down rsi = Inr rsi"
| "rsi_loop deltas periods (i # rest) up down rsi =
     (case py_index deltas (i - 1) of
        Inl e \<Rightarrow> Inl e
      | Inr delta \<Rightarrow>
          (let upval = (if 0 < delta then delta else 0);
               downval = (if 0 < delta then 0 else - delta);
               up' = smooth up periods upval;
               down' = smooth down periods downval
           in case py_set rsi i (rsi_value up' down') of
                Inl e \<Rightarrow> Inl e
              | Inr rsi' \<Rightarrow> rsi_loop deltas periods rest up' down' rsi'))"

definition relative_strength :: "real list \<Rightarrow> int \<Rightarrow> error + npfloat list" where
  "relative_strength prices periods =
     (let deltas = np_diff prices;
          up = seed_up deltas periods;
          down = seed_down deltas periods;
          rsi = np_fill_to (replicate (length prices) (Fin 0)) periods (rsi_value up down)
      in rsi_loop deltas periods [periods..int (length prices) - 1] up down rsi)"


section \<open>returns and average_returns\<close>

text \<open>
  A time series is a list of (timestamp, value) pairs in index order. The keyword
  arguments of \<open>returns\<close> are a record; \<open>start = None\<close> is a start that is not a
  datetime, which selects the periodic mode.
  \<^verbatim>\<open>
  def returns(ts, **kwargs):
      returns_type = kwargs.get('type', 'net')
      cumulative = kwargs.get('cumulative', False)
      relative = 0 if returns_type == 'net' else 1
      start = kwargs.get('start')
      end = kwargs.get('end', dt.datetime.now())
      period = kwargs.get('period', 1)
      if isinstance(start, dt.datetime):
          log.debug(f'{ts[end]} / {ts[start]} -1')
          return ts[end] / ts[start] - 1 + relative
      rets_df = ts / ts.shift(period) - 1 + relative
      return rets_df.cumprod() if cumulative else rets_df[1:]
  \<close>
\<close>

type_synonym 't series = "('t \<times> real) list"

record 't returns_kwargs =
  rtype :: string
  cumulative :: bool
  start :: "'t option"
  stop :: 't
  period :: int

datatype 't returns_result = Scalar npfloat | Series "('t \<times> npfloat) list"

text \<open>\<open>Series.shift(k)\<close>: the values move by \<open>k\<close> positions, the vacated ones are NaN.\<close>

definition shift :: "int \<Rightarrow> real list \<Rightarrow> npfloat list" where
  "shift k vs =
     (if 0 \<le> k
      then replicate (min (length vs) (nat k)) NaN @ map Fin (take (length vs - nat k) vs)
      else map Fin (drop (nat (- k)) vs) @ replicate (min (length vs) (nat (- k))) NaN)"

text \<open>\<open>Series.cumprod()\<close> skips NaN entries: they stay NaN and leave the product unchanged.\<close>

fun cumprod_from :: "npfloat \<Rightarrow> npfloat list \<Rightarrow> npfloat list" where
  "cumprod_from acc [] = []"
| "cumprod_from acc (x # xs) =
     (if x = NaN then NaN # cumprod_from acc xs
      else np_mul acc x # cumprod_from (np_mul acc x) xs)"

definition cumprod :: "npfloat list \<Rightarrow> npfloat list" where
  "cumprod xs = cumprod_from (Fin 1) xs"

definition ret_value :: "real \<Rightarrow> real \<Rightarrow> npfloat \<Rightarrow> npfloat" where
  "ret_value relative v prev = np_add (np_sub (np_div (Fin v) prev) (Fin 1)) (Fin relative)"

definition periodic_returns :: "real \<Rightarrow> int \<Rightarrow> real list \<Rightarrow> npfloat list" where
  "periodic_returns relative k vs = map2 (ret_value relative) vs (shift k vs)"

definition returns :: "'t series \<Rightarrow> 't returns_kwargs \<Rightarrow> error + 't returns_result" where
  "returns ts kw =
     (let relative = (if rtype kw = ''net'' then 0 else 1) in
      case start kw of
        Some s \<Rightarrow>
          (case map_of ts (stop kw) of
             None \<Rightarrow> Inl KeyError
           | Some e \<Rightarrow>
               (case map_of ts s of
                  None \<Rightarrow> Inl KeyError
                | Some b \<Rightarrow> Inr (Scalar (ret_value relative e (Fin b)))))
      | None \<Rightarrow>
          (let rets_df = zip (map fst ts) (periodic_returns relative (period kw) (map snd ts)) in
           Inr (Series (if cumulative kw
                        then zip (map fst rets_df) (cumprod (map snd rets_df))
                        else drop 1 rets_df))))"

text \<open>
  \<^verbatim>\<open>
  def average_returns(ts, **kwargs):
      average_type = kwargs.get('type', 'net')
      relative = 0 if average_type == 'net' else -1
      period = kwargs.get('period')
      avg_ret = 1
      for idx in range(len(ts.index)):
          if idx % period == 0:
              avg_ret *= (1 + ts[idx] + relative)
      return avg_ret - 1
  \<close>
  \<open>period\<close> is None when the keyword is absent; \<open>idx % None\<close> is a TypeError and
  \<open>idx % 0\<close> a ZeroDivisionError, both raised at the first iteration. Python's \<open>%\<close> takes
  the sign of the divisor, as \<open>mod\<close> on \<open>int\<close> does.

  \<open>len(ts.index)\<close> and \<open>ts[idx]\<close> are operations of pandas, and what \<open>ts[idx]\<close> reads for an
  integer \<open>idx\<close> depends on the index of the Series. The function sees the Series through
  these two operations only: the length of the index, and for each integer key the float
  that \<open>ts[key]\<close> returns or the exception it raises.
\<close>

record pd_series =
  index_len :: nat
  getitem :: "int \<Rightarrow> error + real"

text \<open>
  A Series with an integer index: \<open>ts[key]\<close> looks the label \<open>key\<close> up, wherever it
  stands, and raises KeyError when no entry carries it. The labels are distinct.
\<close>

definition int_indexed :: "(int, real) alist \<Rightarrow> pd_series" where
  "int_indexed a =
     \<lparr>index_len = length (DAList.impl_of a),
      getitem = (\<lambda>key. case map_of (DAList.impl_of a) key of
                           None \<Rightarrow> Inl KeyError
                         | Some v \<Rightarrow> Inr v)\<rparr>"

fun avg_loop :: "pd_series \<Rightarrow> real \<Rightarrow> int option \<Rightarrow> nat list \<Rightarrow> real \<Rightarrow> error + real" where
  "avg_loop ts relative p [] avg_ret = Inr avg_ret"
| "avg_loop ts relative p (idx # rest) avg_ret =
     (case p of
        None \<Rightarrow> Inl TypeError
      | Some k \<Rightarrow>
          if k = 0 then Inl ZeroDivisionError
          else if int idx mod k = 0
          then (case getitem ts (int idx) of
                  Inl e \<Rightarrow> Inl e
                | Inr x \<Rightarrow> avg_loop ts relative p rest (avg_ret * (1 + x + relative)))
          else avg_loop ts relative p rest avg_ret)"

definition average_returns :: "pd_series \<Rightarrow> string \<Rightarrow> int option \<Rightarrow> error + real" where
  "average_returns ts average_type p =
     (let relative = (if average_type = ''net'' then 0 else - 1) in
      case avg_loop ts relative p [0..<index_len ts] 1 of
        Inl e \<Rightarrow> Inl e
      | Inr avg_ret \<Rightarrow> Inr (avg_ret - 1))"

section \<open>qstk_get_sharpe_ratio\<close>

text \<open>
  \<^verbatim>\<open>
  def qstk_get_sharpe_ratio(rets, risk_free=0.00):
      f_dev = np.std(rets, axis=0)
      f_mean = np.mean(rets, axis=0)
      return (f_mean * 252 - risk_free) / (f_dev * np.sqrt(252))
  \<close>
  \<open>np.std\<close> and \<open>np.mean\<close> are functions of numpy, computed in floating point: their
  results are not the exact deviation and mean of the list (the deviation of a constant
  list is often a small nonzero number). They are parameters of the model, which takes
  the two floats they return and follows the arithmetic of the last line. No statement
  of the function raises: the result is always \<open>Inr\<close>.
\<close>

definition qstk_get_sharpe_ratio ::
  "(real list \<Rightarrow> npfloat) \<Rightarrow> (real list \<Rightarrow> npfloat) \<Rightarrow> real list \<Rightarrow> real \<Rightarrow> error + npfloat" where
  "qstk_get_sharpe_ratio np_std np_mean rets risk_free =
     (let f_dev = np_std rets;
          f_mean = np_mean rets
      in Inr (np_div (np_sub (np_mul f_mean (Fin 252)) (Fin risk_free))
                     (np_mul f_dev (Fin (sqrt 252)))))"

section \<open>Properties of moving_average\<close>

lemma length_normalise: "length (normalise ws) = length ws"
  by (simp add: normalise_def)

lemma ma_weights_length:
  assumes "ma_weights periods type = Inr ws"
  shows "0 \<le> periods \<and> length ws = nat periods"
  using assms
  by (auto simp: ma_weights_def np_ones_def np_linspace_def split: if_splits sum.splits)

lemma ma_weights_ok:
  assumes "0 \<le> periods"
  shows "\<exists>ws. ma_weights periods type = Inr ws"
  using assms by (simp add: ma_weights_def np_ones_def np_linspace_def)

lemma ma_weights_neg:
  assumes "periods < 0"
  shows "ma_weights periods type = Inl ValueError"
  using assms by (simp add: ma_weights_def np_ones_def np_linspace_def)

lemma moving_average_returns:
  assumes "1 \<le> periods" and "periods < int (length data)" and "ma_weights periods type = Inr ws"
  shows "moving_average data periods type =
           Inr (replicate (nat periods) (conv_at data (normalise ws) (nat periods))
                @ map (conv_at data (normalise ws)) [nat periods..<length data])"
proof -
  have len: "length ws = nat periods"
    using ma_weights_length [OF assms(3)] by simp
  have ne: "data \<noteq> []" "normalise ws \<noteq> []"
    using assms len by (auto simp: normalise_def)
  define full where "full = map (conv_at data (normalise ws)) [0..<length data + length (normalise ws) - 1]"
  have conv: "np_convolve data (normalise ws) = Inr full"
    using ne by (simp add: np_convolve_def full_def)
  have tk: "take (length data) full = map (conv_at data (normalise ws)) [0..<length data]"
    using assms len by (simp add: full_def length_normalise take_map take_upt)
  have idx: "py_index (map (conv_at data (normalise ws)) [0..<length data]) periods
               = Inr (conv_at data (normalise ws) (nat periods))"
    using assms by (simp add: py_index_def)
  have stop: "slice_stop (length data) periods = nat periods"
    using assms by (simp add: slice_stop_def)
  have fill: "np_fill_to (map (conv_at data (normalise ws)) [0..<length data]) periods x
               = replicate (nat periods) x @ map (conv_at data (normalise ws)) [nat periods..<length data]"
    for x
    by (simp add: np_fill_to_def stop drop_map drop_upt)
  show ?thesis
    by (simp add: moving_average_def assms(3) conv tk idx fill)
qed

lemma moving_average_index_error:
  assumes "1 \<le> periods" and "int (length data) \<le> periods" and "data \<noteq> []"
  shows "moving_average data periods type = Inl IndexError"
proof -
  obtain ws where ws: "ma_weights periods type = Inr ws"
    using ma_weights_ok [of periods type] assms by auto
  have len: "length ws = nat periods"
    using ma_weights_length [OF ws] by simp
  have ne: "normalise ws \<noteq> []"
    using assms len by (auto simp: normalise_def)
  have "py_index (take (length data) (map (conv_at data (normalise ws))
            [0..<length data + length (normalise ws) - 1])) periods = Inl IndexError"
    using assms by (simp add: py_index_def)
  then show ?thesis
    using ne assms(3) by (simp add: moving_average_def ws np_convolve_def)
qed

text \<open>
  Claim C1, as amended. For every price series \<open>P\<close> and every \<open>periods\<close> with
  \<open>1 \<le> periods < len(P)\<close>, \<open>moving_average(P, periods, 'simple')\<close> returns a series of
  length \<open>len(P)\<close> whose positions \<open>0..periods-1\<close> all hold the value at position
  \<open>periods\<close>.
\<close>

theorem moving_average_simple_bootstrap:
  assumes "1 \<le> periods" and "periods < int (length P)"
  shows "\<exists>mavg. moving_average P periods ''simple'' = Inr mavg
           \<and> length mavg = length P
           \<and> (\<forall>i < nat periods. mavg ! i = mavg ! nat periods)"
proof -
  obtain ws where ws: "ma_weights periods ''simple'' = Inr ws"
    using ma_weights_ok [of periods "''simple''"] assms(1) by auto
  let ?c = "conv_at P (normalise ws)"
  let ?mavg = "replicate (nat periods) (?c (nat periods)) @ map ?c [nat periods..<length P]"
  have res: "moving_average P periods ''simple'' = Inr ?mavg"
    by (rule moving_average_returns [OF assms ws])
  have len: "length ?mavg = length P"
    using assms by simp
  have at: "?mavg ! nat periods = ?c (nat periods)"
    using assms by (simp add: nth_append)
  have "\<forall>i < nat periods. ?mavg ! i = ?mavg ! nat periods"
    unfolding at by (simp add: nth_append)
  with res len show ?thesis by blast
qed

theorem moving_average_simple_bootstrap_witness:
  "(1::int) \<le> 2 \<and> 2 < int (length [1, 2, 4, 8 :: real])
   \<and> (\<exists>mavg. moving_average [1, 2, 4, 8] 2 ''simple'' = Inr mavg
           \<and> length mavg = length [1, 2, 4, 8 :: real]
           \<and> (\<forall>i < nat 2. mavg ! i = mavg ! nat 2))"
  using moving_average_simple_bootstrap [of 2 "[1, 2, 4, 8]"] by simp

text \<open>
  Claim C1 as stated also covers \<open>periods = len(P)\<close>. There \<open>mavg[periods]\<close> is read one
  past the end of the truncated convolution and the call raises IndexError: no series
  is returned for the two prices \<open>[1, 2]\<close> and \<open>periods = 2\<close>.
\<close>

theorem moving_average_full_window_counterexample:
  "(1::int) \<le> 2 \<and> 2 \<le> int (length [1, 2 :: real])
   \<and> moving_average [1, 2] 2 ''simple'' = Inl IndexError"
  by (simp add: moving_average_def ma_weights_def np_ones_def np_convolve_def normalise_def
      py_index_def)

lemma slice_stop_le: "slice_stop n k \<le> n"
  by (simp add: slice_stop_def)

lemma length_np_fill_to: "length (np_fill_to xs k v) = length xs"
  using slice_stop_le [of "length xs" k] by (simp add: np_fill_to_def)

lemma np_convolve_length:
  assumes "np_convolve a v = Inr full"
  shows "length a \<le> length full"
  using assms by (cases v) (auto simp: np_convolve_def split: if_splits)

lemma moving_average_length:
  assumes "moving_average data periods type = Inr mavg"
  shows "length mavg = length data"
proof -
  from assms obtain ws full x where
    conv: "np_convolve data (normalise ws) = Inr full"
    and mavg: "mavg = np_fill_to (take (length data) full) periods x"
    by (auto simp: moving_average_def Let_def split: sum.splits)
  show ?thesis
    using np_convolve_length [OF conv] by (simp add: mavg length_np_fill_to)
qed

lemma moving_average_ok:
  assumes "1 \<le> periods" and "periods < int (length data)"
  shows "\<exists>mavg. moving_average data periods type = Inr mavg"
proof -
  obtain ws where "ma_weights periods type = Inr ws"
    using ma_weights_ok [of periods type] assms(1) by auto
  from moving_average_returns [OF assms this] show ?thesis by blast
qed

text \<open>
  Claim C4. \<open>moving_average_convergence(prices, nslow, nfast)\<close> returns the triple
  \<open>(S, F, F - S)\<close> of the exponential moving averages with windows \<open>nslow\<close> and
  \<open>nfast\<close>; the three series have the length of \<open>prices\<close> and the divergence is fast
  minus slow at every index. Both windows must be at least 1 and shorter than the
  series, otherwise \<open>moving_average\<close> raises and nothing is returned.
\<close>

theorem macd_triple:
  assumes "1 \<le> nslow" and "nslow < int (length prices)"
    and "1 \<le> nfast" and "nfast < int (length prices)"
  shows "\<exists>S F D. moving_average prices nslow ''exponential'' = Inr S
           \<and> moving_average prices nfast ''exponential'' = Inr F
           \<and> moving_average_convergence prices nslow nfast = Inr (S, F, D)
           \<and> length S = length prices \<and> length F = length prices \<and> length D = length prices
           \<and> (\<forall>i < length prices. D ! i = F ! i - S ! i)"
proof -
  obtain S where S: "moving_average prices nslow ''exponential'' = Inr S"
    using moving_average_ok [OF assms(1,2)] by blast
  obtain F where F: "moving_average prices nfast ''exponential'' = Inr F"
    using moving_average_ok [OF assms(3,4)] by blast
  have lS: "length S = length prices" and lF: "length F = length prices"
    using moving_average_length [OF S] moving_average_length [OF F] by simp_all
  define D where "D = map2 (\<lambda>f s. f - s) F S"
  have res: "moving_average_convergence prices nslow nfast = Inr (S, F, D)"
    by (simp add: moving_average_convergence_def S F D_def)
  have lD: "length D = length prices"
    by (simp add: D_def lS lF)
  have "\<forall>i < length prices. D ! i = F ! i - S ! i"
    by (simp add: D_def lS lF)
  with S F res lS lF lD show ?thesis by blast
qed

theorem macd_triple_witness:
  "(1::int) \<le> 2 \<and> 2 < int (length [1, 2, 4, 8 :: real])
   \<and> (1::int) \<le> 1 \<and> 1 < int (length [1, 2, 4, 8 :: real])
   \<and> (\<exists>S F D. moving_average [1, 2, 4, 8] 2 ''exponential'' = Inr S
           \<and> moving_average [1, 2, 4, 8] 1 ''exponential'' = Inr F
           \<and> moving_average_convergence [1, 2, 4, 8] 2 1 = Inr (S, F, D)
           \<and> length S = length [1, 2, 4, 8 :: real] \<and> length F = length [1, 2, 4, 8 :: real]
           \<and> length D = length [1, 2, 4, 8 :: real]
           \<and> (\<forall>i < length [1, 2, 4, 8 :: real]. D ! i = F ! i - S ! i))"
  using macd_triple [of 2 "[1, 2, 4, 8]" 1] by simp

lemma exp_weights:
  assumes "2 \<le> periods" and "type \<noteq> ''simple''"
  shows "ma_weights periods type
           = Inr (map (\<lambda>j. exp (- 1 + real j / real (nat periods - 1))) [0..<nat periods])"
  using assms by (simp add: ma_weights_def np_linspace_def)

lemma sum_list_pos:
  fixes f :: "nat \<Rightarrow> real"
  assumes "\<And>j. 0 < f j" and "0 < n"
  shows "0 < sum_list (map f [0..<n])"
  using assms(2)
proof (induction n)
  case 0
  then show ?case by simp
next
  case (Suc n)
  have "0 \<le> sum_list (map f [0..<n])"
    by (rule sum_list_nonneg) (auto intro: less_imp_le assms(1))
  then show ?case using assms(1) [of n] by simp
qed

lemma conv_at_lags:
  assumes "n < length a" and "length v \<le> Suc n"
  shows "conv_at a v n = (\<Sum>j\<leftarrow>[0..<length v]. v ! j * a ! (n - j))"
proof -
  have "conv_at a v n
          = (\<Sum>m\<in>{0..<length a}. if m \<le> n \<and> n - m < length v then a ! m * v ! (n - m) else 0)"
    by (simp add: conv_at_def interv_sum_list_conv_sum_set_nat)
  also have "\<dots> = (\<Sum>m\<in>{m. m < length a \<and> m \<le> n \<and> n - m < length v}. a ! m * v ! (n - m))"
    by (rule trans [OF sum.inter_filter [symmetric]]) (auto intro: sum.cong)
  also have "\<dots> = (\<Sum>j\<in>{0..<length v}. v ! j * a ! (n - j))"
    by (rule sum.reindex_bij_witness [where i = "\<lambda>j. n - j" and j = "\<lambda>m. n - m"])
      (use assms in auto)
  also have "\<dots> = (\<Sum>j\<leftarrow>[0..<length v]. v ! j * a ! (n - j))"
    by (simp add: interv_sum_list_conv_sum_set_nat)
  finally show ?thesis .
qed

text \<open>
  Claim C9. For \<open>2 \<le> periods < len(data)\<close> and any kind other than \<open>'simple'\<close>,
  \<open>moving_average\<close> returns a series of the length of \<open>data\<close>. Its kernel has entry \<open>j\<close>
  equal to \<open>exp(-1 + j/(periods-1))\<close> divided by the kernel's sum, increasing strictly
  with \<open>j\<close>, and the value at every index \<open>n \<ge> periods\<close> is the sum over the lags
  \<open>j < periods\<close> of entry \<open>j\<close> times \<open>data[n - j]\<close>: the weight grows with the lag, the
  oldest sample of the window has the largest weight and the current sample the
  smallest. The positions before \<open>periods\<close> hold the value at \<open>periods\<close>.
\<close>

theorem exponential_weights_increase_with_lag:
  assumes "2 \<le> periods" and "periods < int (length data)" and "type \<noteq> ''simple''"
  shows "\<exists>ws mavg.
           ws = map (\<lambda>j. exp (- 1 + real j / real (nat periods - 1))) [0..<nat periods]
           \<and> ma_weights periods type = Inr ws \<and> 0 < sum_list ws
           \<and> (\<forall>j < nat periods.
                 normalise ws ! j = exp (- 1 + real j / real (nat periods - 1)) / sum_list ws)
           \<and> (\<forall>j k. j < k \<and> k < nat periods \<longrightarrow> normalise ws ! j < normalise ws ! k)
           \<and> moving_average data periods type = Inr mavg \<and> length mavg = length data
           \<and> (\<forall>n. nat periods \<le> n \<and> n < length data
                 \<longrightarrow> mavg ! n = (\<Sum>j\<leftarrow>[0..<nat periods]. normalise ws ! j * data ! (n - j)))
           \<and> (\<forall>i < nat periods. mavg ! i = mavg ! nat periods)"
proof -
  define p where "p = nat periods"
  define w where "w = (\<lambda>j. exp (- 1 + real j / real (p - 1)))"
  define ws where "ws = map w [0..<p]"
  define c where "c = conv_at data (normalise ws)"
  define mavg where "mavg = replicate p (c p) @ map c [p..<length data]"
  have p2: "2 \<le> p" and pl: "p < length data"
    using assms(1,2) by (simp_all add: p_def)
  have ws: "ma_weights periods type = Inr ws"
    using exp_weights [OF assms(1,3)] by (simp add: ws_def w_def p_def)
  have len: "length ws = p"
    by (simp add: ws_def)
  have Z: "0 < sum_list ws"
    unfolding ws_def by (rule sum_list_pos) (use p2 in \<open>simp_all add: w_def\<close>)
  have nth: "normalise ws ! j = w j / sum_list ws" if "j < p" for j
    using that by (simp add: normalise_def ws_def)
  have mono: "normalise ws ! j < normalise ws ! k" if "j < k" and "k < p" for j k
  proof -
    have "real j / real (p - 1) < real k / real (p - 1)"
      using that p2 by (simp add: divide_strict_right_mono)
    then have "w j < w k"
      by (simp add: w_def)
    then show ?thesis
      using that Z by (simp add: nth divide_strict_right_mono)
  qed
  have res: "moving_average data periods type = Inr mavg"
    using moving_average_returns [OF _ assms(2) ws] assms(1)
    by (simp add: mavg_def c_def p_def)
  have lm: "length mavg = length data"
    using pl by (simp add: mavg_def)
  have conv: "mavg ! n = (\<Sum>j\<leftarrow>[0..<p]. normalise ws ! j * data ! (n - j))"
    if pn: "p \<le> n" and n: "n < length data" for n
  proof -
    have "mavg ! n = conv_at data (normalise ws) n"
      using pn n by (simp add: mavg_def c_def nth_append)
    also have "\<dots> = (\<Sum>j\<leftarrow>[0..<length (normalise ws)]. normalise ws ! j * data ! (n - j))"
      by (rule conv_at_lags) (use pn n len in \<open>simp_all add: length_normalise\<close>)
    finally show ?thesis
      by (simp add: length_normalise len)
  qed
  have flat: "mavg ! i = mavg ! p" if "i < p" for i
    using that pl by (simp add: mavg_def nth_append)
  have wsd: "ws = map (\<lambda>j. exp (- 1 + real j / real (p - 1))) [0..<p]"
    by (simp add: ws_def w_def)
  have nth': "\<forall>j < p. normalise ws ! j = exp (- 1 + real j / real (p - 1)) / sum_list ws"
    using nth by (simp add: w_def)
  have mono': "\<forall>j k. j < k \<and> k < p \<longrightarrow> normalise ws ! j < normalise ws ! k"
    using mono by blast
  have conv': "\<forall>n. p \<le> n \<and> n < length data
                 \<longrightarrow> mavg ! n = (\<Sum>j\<leftarrow>[0..<p]. normalise ws ! j * data ! (n - j))"
    using conv by blast
  have flat': "\<forall>i < p. mavg ! i = mavg ! p"
    using flat by blast
  have "ws = map (\<lambda>j. exp (- 1 + real j / real (p - 1))) [0..<p]
          \<and> ma_weights periods type = Inr ws \<and> 0 < sum_list ws
          \<and> (\<forall>j < p. normalise ws ! j = exp (- 1 + real j / real (p - 1)) / sum_list ws)
          \<and> (\<forall>j k. j < k \<and> k < p \<longrightarrow> normalise ws ! j < normalise ws ! k)
          \<and> moving_average data periods type = Inr mavg \<and> length mavg = length data
          \<and> (\<forall>n. p \<le> n \<and> n < length data
                 \<longrightarrow> mavg ! n = (\<Sum>j\<leftarrow>[0..<p]. normalise ws ! j * data ! (n - j)))
          \<and> (\<forall>i < p. mavg ! i = mavg ! p)"
    by (intro conjI wsd ws Z nth' mono' res lm conv' flat')
  then show ?thesis
    unfolding p_def by (intro exI)
qed

theorem exponential_weights_increase_with_lag_witness:
  "(2::int) \<le> 2 \<and> 2 < int (length [1, 2, 4, 8 :: real]) \<and> ''exponential'' \<noteq> ''simple''
   \<and> (\<exists>mavg. moving_average [1, 2, 4, 8] 2 ''exponential'' = Inr mavg
         \<and> length mavg = 4
         \<and> mavg ! 2 = (exp (- 1) * 4 + 2) / (exp (- 1) + 1)
         \<and> mavg ! 3 = (exp (- 1) * 8 + 4) / (exp (- 1) + 1)
         \<and> mavg ! 0 = mavg ! 2 \<and> mavg ! 1 = mavg ! 2)"
proof -
  have hyps: "(2::int) \<le> 2" "2 < int (length [1, 2, 4, 8 :: real])" "''exponential'' \<noteq> ''simple''"
    by simp_all
  from exponential_weights_increase_with_lag [OF hyps]
  obtain ws mavg where
    ws: "ws = map (\<lambda>j. exp (- 1 + real j / real (nat 2 - 1))) [0..<nat 2]"
    and res: "moving_average [1, 2, 4, 8] 2 ''exponential'' = Inr mavg"
    and len: "length mavg = length [1, 2, 4, 8 :: real]"
    and conv: "\<forall>n. nat 2 \<le> n \<and> n < length [1, 2, 4, 8 :: real]
                 \<longrightarrow> mavg ! n = (\<Sum>j\<leftarrow>[0..<nat 2]. normalise ws ! j * [1, 2, 4, 8] ! (n - j))"
    and flat: "\<forall>i < nat 2. mavg ! i = mavg ! nat 2"
    by (elim exE conjE)
  have two: "[0..<nat 2] = [0, Suc 0]" "nat 2 = Suc (Suc 0)"
    by (simp_all add: upt_rec)
  have wsv: "ws = [exp (- 1), 1]"
    unfolding ws two by simp
  have n0: "normalise ws ! 0 = exp (- 1) / (exp (- 1) + 1)"
    and n1: "normalise ws ! Suc 0 = 1 / (exp (- 1) + 1)"
    unfolding normalise_def wsv by simp_all
  have "mavg ! 2 = (\<Sum>j\<leftarrow>[0..<nat 2]. normalise ws ! j * [1, 2, 4, 8] ! (2 - j))"
    using conv by simp
  then have m2: "mavg ! 2 = (exp (- 1) * 4 + 2) / (exp (- 1) + 1)"
    unfolding two by (simp add: n0 n1 add_divide_distrib)
  have "mavg ! 3 = (\<Sum>j\<leftarrow>[0..<nat 2]. normalise ws ! j * [1, 2, 4, 8] ! (3 - j))"
    using conv by simp
  then have m3: "mavg ! 3 = (exp (- 1) * 8 + 4) / (exp (- 1) + 1)"
    unfolding two by (simp add: n0 n1 add_divide_distrib numeral_3_eq_3)
  have f: "mavg ! 0 = mavg ! 2" "mavg ! 1 = mavg ! 2"
    using flat by (simp_all add: numeral_2_eq_2)
  show ?thesis
    using res len m2 m3 f by simp
qed

section \<open>Properties of relative_strength\<close>

text \<open>
  Claim C2 says that the seed state is computed over exactly the first \<open>periods\<close>
  differences. The code slices \<open>deltas[:periods + 1]\<close>. For the prices \<open>[1, 2, 1, 3]\<close>
  and \<open>periods = 2\<close> the seed window is all three differences \<open>[1, -1, 2]\<close>, so
  \<open>up = 3/2\<close>, where the first two differences give \<open>1/2\<close>, and the bootstrap value of the
  indicator is 75 instead of 50.
\<close>

theorem relative_strength_seed_window:
  "py_slice_to (np_diff [1, 2, 1, 3]) (2 + 1) = [1, - 1, 2]
   \<and> seed_up (np_diff [1, 2, 1, 3]) 2 = Fin (3 / 2)
   \<and> seed_down (np_diff [1, 2, 1, 3]) 2 = Fin (1 / 2)
   \<and> sum_list (filter (\<lambda>d. 0 < d) (take 2 (np_diff [1, 2, 1, 3]))) / 2 = 1 / 2
   \<and> relative_strength [1, 2, 1, 3] 2 = Inr [Fin 75, Fin 75, Fin 50, Fin (550 / 7)]"
  by (simp add: relative_strength_def np_diff_def seed_up_def seed_down_def py_slice_to_def
      slice_stop_def rsi_value_def np_sub_def np_fill_to_def upto.simps py_index_def py_set_def
      smooth_def)












section \<open>Properties of returns and average_returns\<close>

lemma avg_loop_prod:
  assumes "k \<noteq> 0"
    and "map (\<lambda>idx. getitem ts (int idx)) (filter (\<lambda>idx. int idx mod k = 0) idxs) = map Inr xs"
  shows "avg_loop ts relative (Some k) idxs acc
           = Inr (acc * prod_list (map (\<lambda>x. 1 + x + relative) xs))"
  using assms(2)
proof (induction idxs arbitrary: xs acc)
  case Nil
  then show ?case by simp
next
  case (Cons idx rest)
  show ?case
  proof (cases "int idx mod k = 0")
    case True
    with Cons.prems obtain x xs' where xs: "xs = x # xs'"
      and x: "getitem ts (int idx) = Inr x"
      and rest: "map (\<lambda>idx. getitem ts (int idx)) (filter (\<lambda>idx. int idx mod k = 0) rest)
                   = map Inr xs'"
      by (cases xs) auto
    show ?thesis
      using assms(1) True by (simp add: x xs Cons.IH [OF rest] mult.assoc)
  next
    case False
    with Cons.prems have "map (\<lambda>idx. getitem ts (int idx))
        (filter (\<lambda>idx. int idx mod k = 0) rest) = map Inr xs"
      by simp
    from Cons.IH [OF this] show ?thesis
      using assms(1) False by simp
  qed
qed

lemma np_add_zero_one: "np_add (np_add x (Fin 0)) (Fin 1) = np_add x (Fin 1)"
  by (cases x) simp_all

lemma ret_value_gross: "ret_value 1 v prev = np_add (ret_value 0 v prev) (Fin 1)"
  by (simp add: ret_value_def np_add_zero_one)

lemma periodic_returns_gross:
  "periodic_returns 1 k vs = map (\<lambda>r. np_add r (Fin 1)) (periodic_returns 0 k vs)"
  by (simp add: periodic_returns_def ret_value_gross zip_map_fst_snd map_zip_map split_def)

lemma int_indexed_simps:
  assumes "distinct (map fst kvs)"
  shows "index_len (int_indexed (Alist kvs)) = length kvs"
    and "getitem (int_indexed (Alist kvs)) key
           = (case map_of kvs key of None \<Rightarrow> Inl KeyError | Some v \<Rightarrow> Inr v)"
  using assms by (simp_all add: int_indexed_def impl_of_Alist)

text \<open>
  Claim C10. With \<open>type='gross'\<close> \<open>average_returns\<close> uses the offset \<open>-1\<close>, so each factor
  is \<open>1 + ts[idx] - 1\<close>, the raw value \<open>ts[idx]\<close> read at an index that is a multiple of
  the period; with \<open>type='net'\<close> the factor is \<open>1 + ts[idx]\<close>. Here \<open>xs\<close> are the values
  that the lookups \<open>ts[idx]\<close> return at those indices, whatever the index of the Series
  makes them. In \<open>returns\<close> the gross series is the net series plus 1.
\<close>

theorem average_returns_gross_offset:
  assumes "k \<noteq> 0"
    and "map (\<lambda>idx. getitem ts (int idx)) (filter (\<lambda>idx. int idx mod k = 0) [0..<index_len ts])
           = map Inr xs"
  shows "average_returns ts ''gross'' (Some k) = Inr (prod_list xs - 1)
       \<and> average_returns ts ''net'' (Some k) = Inr (prod_list (map (\<lambda>x. 1 + x) xs) - 1)
       \<and> (\<exists>N. returns rs \<lparr>rtype = ''net'', cumulative = False, start = None, stop = e, period = q\<rparr>
                 = Inr (Series N)
              \<and> returns rs \<lparr>rtype = ''gross'', cumulative = False, start = None, stop = e, period = q\<rparr>
                 = Inr (Series (map (\<lambda>(t, r). (t, np_add r (Fin 1))) N)))"
proof -
  have "average_returns ts ''gross'' (Some k)
          = Inr (prod_list (map (\<lambda>x. 1 + x + (- 1)) xs) - 1)"
    by (simp only: average_returns_def avg_loop_prod [OF assms] Let_def) simp
  moreover have "map (\<lambda>x. 1 + x + (- 1)) xs = xs"
    by (induction xs) simp_all
  ultimately have g: "average_returns ts ''gross'' (Some k) = Inr (prod_list xs - 1)"
    by (simp only:)
  have "average_returns ts ''net'' (Some k)
          = Inr (prod_list (map (\<lambda>x. 1 + x + 0) xs) - 1)"
    by (simp only: average_returns_def avg_loop_prod [OF assms] Let_def) simp
  then have n: "average_returns ts ''net'' (Some k)
                  = Inr (prod_list (map (\<lambda>x. 1 + x) xs) - 1)"
    by simp
  have r: "\<exists>N. returns rs \<lparr>rtype = ''net'', cumulative = False, start = None, stop = e, period = q\<rparr>
                 = Inr (Series N)
              \<and> returns rs \<lparr>rtype = ''gross'', cumulative = False, start = None, stop = e, period = q\<rparr>
                 = Inr (Series (map (\<lambda>(t, r). (t, np_add r (Fin 1))) N))"
    by (simp add: returns_def periodic_returns_gross zip_map2 drop_map)
  show ?thesis
    using g n r by (simp only: simp_thms)
qed

theorem average_returns_gross_offset_witness:
  "(2::int) \<noteq> 0
   \<and> map (\<lambda>idx. getitem (int_indexed (Alist [(0, 1 / 2), (1, 1 / 4), (2, 1 / 8)])) (int idx))
         (filter (\<lambda>idx. int idx mod 2 = 0)
            [0..<index_len (int_indexed (Alist [(0, 1 / 2), (1, 1 / 4), (2, 1 / 8)]))])
       = map Inr [1 / 2, 1 / 8]
   \<and> average_returns (int_indexed (Alist [(0, 1 / 2), (1, 1 / 4), (2, 1 / 8)])) ''gross'' (Some 2)
       = Inr (- (15 / 16))
   \<and> average_returns (int_indexed (Alist [(0, 1 / 2), (1, 1 / 4), (2, 1 / 8)])) ''net'' (Some 2)
       = Inr (11 / 16)
   \<and> returns [(0::nat, 100), (1, 110), (2, 121)]
        \<lparr>rtype = ''net'', cumulative = False, start = None, stop = 0, period = 1\<rparr>
       = Inr (Series [(1, Fin (1 / 10)), (2, Fin (1 / 10))])
   \<and> returns [(0::nat, 100), (1, 110), (2, 121)]
        \<lparr>rtype = ''gross'', cumulative = False, start = None, stop = 0, period = 1\<rparr>
       = Inr (Series [(1, Fin (11 / 10)), (2, Fin (11 / 10))])"
proof -
  let ?ts = "int_indexed (Alist [(0, 1 / 2), (1, 1 / 4), (2, 1 / 8)])"
  have h: "map (\<lambda>idx. getitem ?ts (int idx)) (filter (\<lambda>idx. int idx mod 2 = 0) [0..<index_len ?ts])
             = map Inr [1 / 2, 1 / 8]"
    by (simp add: int_indexed_simps upt_rec)
  have k: "(2::int) \<noteq> 0" by simp
  have net: "returns [(0::nat, 100), (1, 110), (2, 121)]
        \<lparr>rtype = ''net'', cumulative = False, start = None, stop = 0, period = 1\<rparr>
       = Inr (Series [(1, Fin (1 / 10)), (2, Fin (1 / 10))])"
    by (simp add: returns_def periodic_returns_def shift_def ret_value_def np_sub_def)
  from average_returns_gross_offset [OF k h, of "[(0::nat, 100), (1, 110), (2, 121)]" 0 1]
  show ?thesis
    using h net by (auto simp: net)
qed

text \<open>
  On an integer index the lookup goes by label: with the labels \<open>[1, 2, 0]\<close> the factors
  are read at the labels 0 and 2, and with the labels \<open>[10, 20, 30]\<close> the first lookup
  \<open>ts[0]\<close> raises KeyError.
\<close>

lemma average_returns_label_lookup:
  "average_returns (int_indexed (Alist [(1, 1 / 2), (2, 1 / 4), (0, 1 / 8)])) ''net'' (Some 2)
     = Inr (13 / 32)
   \<and> average_returns (int_indexed (Alist [(10, 1 / 2), (20, 1 / 4), (30, 1 / 8)])) ''net'' (Some 2)
     = Inl KeyError"
  by (simp add: average_returns_def int_indexed_simps upt_rec)

text \<open>
  Claim C3 says that the non-cumulative output drops the first \<open>period\<close> entries, those
  left undefined by the shift. The code returns \<open>rets_df[1:]\<close>, which drops one entry
  whatever the period. For the prices \<open>[100, 110, 121]\<close> and \<open>period = 2\<close> the output
  keeps the undefined entry of index 1; the cumulative output keeps both undefined
  entries, as the claim says, and for \<open>period = 1\<close> the two readings agree.
\<close>

theorem returns_drops_one_entry:
  "returns [(0::nat, 100), (1, 110), (2, 121)]
     \<lparr>rtype = ''net'', cumulative = False, start = None, stop = 0, period = 2\<rparr>
     = Inr (Series [(1, NaN), (2, Fin (21 / 100))])
   \<and> returns [(0::nat, 100), (1, 110), (2, 121)]
     \<lparr>rtype = ''net'', cumulative = True, start = None, stop = 0, period = 2\<rparr>
     = Inr (Series [(0, NaN), (1, NaN), (2, Fin (21 / 100))])
   \<and> returns [(0::nat, 100), (1, 110), (2, 121)]
     \<lparr>rtype = ''net'', cumulative = False, start = None, stop = 0, period = 1\<rparr>
     = Inr (Series [(1, Fin (1 / 10)), (2, Fin (1 / 10))])"
  by (simp add: returns_def periodic_returns_def shift_def ret_value_def np_sub_def cumprod_def)









section \<open>Properties of qstk_get_sharpe_ratio\<close>

lemma np_div_zero:
  "np_div x (Fin 0) = PInf \<or> np_div x (Fin 0) = NInf \<or> np_div x (Fin 0) = NaN"
  by (cases x) (simp_all add: inf_of_sign_def)

text \<open>
  Claim C7, as amended. When the standard deviation that \<open>np.std\<close> computes for the
  returns is exactly \<open>0.0\<close>, the division by zero raises nothing:
  \<open>qstk_get_sharpe_ratio\<close> returns \<open>+inf\<close>, \<open>-inf\<close> or NaN, whatever \<open>np.mean\<close> computes.
\<close>

theorem sharpe_zero_deviation:
  assumes "np_std rets = Fin 0"
  shows "\<exists>v. qstk_get_sharpe_ratio np_std np_mean rets risk_free = Inr v
           \<and> (v = PInf \<or> v = NInf \<or> v = NaN)"
  using np_div_zero by (simp add: qstk_get_sharpe_ratio_def assms)

text \<open>
  For the returns \<open>[1, 1]\<close> numpy computes the deviation \<open>0.0\<close> and the mean \<open>1.0\<close>.
\<close>

theorem sharpe_zero_deviation_witness:
  "qstk_get_sharpe_ratio (\<lambda>rets. Fin 0) (\<lambda>rets. Fin 1) [1, 1] 0 = Inr PInf"
proof -
  have h: "(\<lambda>rets :: real list. Fin 0) [1, 1] = Fin 0"
    by simp
  from sharpe_zero_deviation [of "\<lambda>rets. Fin 0" "[1, 1]" "\<lambda>rets. Fin 1" 0, OF h]
  show ?thesis
    by (simp add: qstk_get_sharpe_ratio_def np_sub_def inf_of_sign_def)
qed

text \<open>
  Claim C7 as stated asks for a typed failure. For the returns \<open>[0.5, 0.5]\<close> numpy
  computes the deviation \<open>0.0\<close> and the mean \<open>0.5\<close> (floating point is exact there), and
  the call returns \<open>+inf\<close>; for \<open>[0, 0]\<close> both are \<open>0.0\<close> and the call returns NaN.
\<close>

theorem sharpe_zero_deviation_counterexample:
  "qstk_get_sharpe_ratio (\<lambda>rets. Fin 0) (\<lambda>rets. Fin (1 / 2)) [1 / 2, 1 / 2] 0 = Inr PInf
   \<and> qstk_get_sharpe_ratio (\<lambda>rets. Fin 0) (\<lambda>rets. Fin 0) [0, 0] 0 = Inr NaN"
  by (simp add: qstk_get_sharpe_ratio_def np_sub_def inf_of_sign_def)

section \<open>Non-positive periods\<close>

lemma moving_average_value_error:
  assumes "periods \<le> 0"
  shows "moving_average data periods type = Inl ValueError"
proof (cases "periods < 0")
  case True
  then show ?thesis
    by (simp add: moving_average_def ma_weights_neg)
next
  case False
  with assms have "periods = 0" by simp
  then have "ma_weights periods type = Inr []"
    by (simp add: ma_weights_def np_ones_def np_linspace_def)
  then show ?thesis
    by (simp add: moving_average_def np_convolve_def normalise_def)
qed

text \<open>
  Claim C8, as amended. A non-positive \<open>periods\<close> makes \<open>moving_average\<close> fail with the
  ValueError that numpy raises (for a negative size, or for the empty kernel of
  \<open>periods = 0\<close>), and \<open>period = 0\<close> makes \<open>average_returns\<close> fail with
  ZeroDivisionError on a non-empty series, at the first index.
\<close>

theorem non_positive_periods_rejected:
  "(periods \<le> 0 \<longrightarrow> moving_average data periods type = Inl ValueError)
   \<and> (0 < index_len ts \<longrightarrow> average_returns ts average_type (Some 0) = Inl ZeroDivisionError)"
proof -
  have "average_returns ts average_type (Some 0) = Inl ZeroDivisionError" if "0 < index_len ts"
  proof -
    from that obtain n where "index_len ts = Suc n"
      by (cases "index_len ts") auto
    then have "[0..<index_len ts] = 0 # [1..<Suc n]"
      by (simp add: upt_rec)
    then show ?thesis
      by (simp add: average_returns_def)
  qed
  then show ?thesis
    using moving_average_value_error by blast
qed

theorem non_positive_periods_rejected_witness:
  "(0::int) \<le> 0 \<and> moving_average [1, 2, 3] 0 ''simple'' = Inl ValueError
   \<and> (- 3::int) \<le> 0 \<and> moving_average [1, 2, 3] (- 3) ''exponential'' = Inl ValueError
   \<and> 0 < index_len (int_indexed (Alist [(0, 1 / 2)]))
   \<and> average_returns (int_indexed (Alist [(0, 1 / 2)])) ''net'' (Some 0) = Inl ZeroDivisionError"
  using non_positive_periods_rejected
          [of 0 "[1, 2, 3]" "''simple''" "int_indexed (Alist [(0, 1 / 2)])" "''net''"]
    non_positive_periods_rejected
          [of "- 3" "[1, 2, 3]" "''exponential''" "int_indexed (Alist [(0, 1 / 2)])" "''net''"]
  by (simp add: int_indexed_simps)

text \<open>
  Claim C8 as stated says that every one of the four functions rejects a non-positive
  period. None of them validates its argument: \<open>average_returns\<close> with \<open>period = -2\<close>,
  \<open>returns\<close> with \<open>period = 0\<close> and \<open>period = -1\<close>, and \<open>relative_strength\<close> with
  \<open>periods = 0\<close> all return a result.
\<close>

theorem non_positive_period_counterexample:
  "average_returns (int_indexed (Alist [(0, 1 / 2), (1, 1 / 4), (2, 1 / 8)])) ''net'' (Some (- 2))
      = Inr (11 / 16)
   \<and> returns [(0::nat, 100), (1, 110), (2, 121)]
        \<lparr>rtype = ''net'', cumulative = False, start = None, stop = 0, period = 0\<rparr>
      = Inr (Series [(1, Fin 0), (2, Fin 0)])
   \<and> returns [(0::nat, 100), (1, 110), (2, 121)]
        \<lparr>rtype = ''net'', cumulative = False, start = None, stop = 0, period = - 1\<rparr>
      = Inr (Series [(1, Fin (- (1 / 11))), (2, NaN)])
   \<and> relative_strength [1, 2, 3] 0 = Inr [NaN, NaN, NaN]"
  by (simp add: average_returns_def int_indexed_simps upt_rec returns_def periodic_returns_def
      shift_def ret_value_def np_sub_def relative_strength_def np_diff_def seed_up_def
      seed_down_def py_slice_to_def slice_stop_def rsi_value_def np_fill_to_def upto.simps
      py_index_def py_set_def smooth_def inf_of_sign_def)

end
